theory Spec2Isabelle
  imports Complex_Main
begin

section \<open>Eye alignment: the data model\<close>

text \<open>
  The development follows \<^verbatim>\<open>src/eye_alignment/main.py\<close>: the landmark locator
  \<^verbatim>\<open>find_mid_eye\<close>, the alignment cropper \<^verbatim>\<open>align_eyes\<close> and the orchestrator
  \<^verbatim>\<open>main\<close>.

  Numbers. The eye coordinates and everything derived from them are float64 values in
  the source; they are modelled as exact reals, so no rounding of the floating-point
  operations is represented. The results of \<^verbatim>\<open>astype(int)\<close> are int64 values in the
  source and unbounded integers here. Every concrete input used below consists of small
  integers, halves and quarters, on which float64 arithmetic is exact.
\<close>

type_synonym point = "real \<times> real"

text \<open>
  An image is a numpy array with at least two axes: \<^verbatim>\<open>shape = (height, width, ...)\<close>.
  The grid of pixels is a function of row and column; a pixel of an image with a channel
  axis is the whole channel vector, so the element type is left open.
\<close>

record 'a image =
  height :: nat
  width :: nat
  chans :: "nat list"
  pix :: "nat \<Rightarrow> nat \<Rightarrow> 'a"

definition shape :: "'a image \<Rightarrow> nat list" where
  "shape img = height img # width img # chans img"

text \<open>
  The external detector \<^verbatim>\<open>RetinaFace.detect_faces\<close> returns a dictionary from face
  identifiers to face records; of a face record only the two eye landmarks are read.
  The dictionary is an association list, \<^verbatim>\<open>len(faces)\<close> its length.
\<close>

record landmark_set =
  left_eye :: point
  right_eye :: point

record face =
  landmarks :: landmark_set

type_synonym faces = "(string \<times> face) list"

type_synonym 'a detector = "'a image \<Rightarrow> faces"

datatype error =
    FaceDetectionError string
  | KeyError string
  | IncompatibleShapes "nat list" "nat list"
  | ZeroSizeReduction
  | IndexError

text \<open>
  \<^const>\<open>IncompatibleShapes\<close> \<open>s1 s2\<close> is the \<^verbatim>\<open>ValueError\<close> of \<^verbatim>\<open>main\<close> whose message
  is \<^verbatim>\<open>f"Incompatible shapes {s1} and {s2}"\<close>; \<^const>\<open>ZeroSizeReduction\<close> is the
  \<^verbatim>\<open>ValueError\<close> numpy raises for \<^verbatim>\<open>max\<close> over an empty axis; \<^const>\<open>IndexError\<close> is
  \<^verbatim>\<open>imgs[0]\<close> on an empty sequence.
\<close>

section \<open>The landmark locator\<close>

text \<open>\<^verbatim>\<open>np.mean([a, b], axis=0)\<close> of two 2-vectors.\<close>

definition mean2 :: "point \<Rightarrow> point \<Rightarrow> point" where
  "mean2 a b = ((fst a + fst b) / 2, (snd a + snd b) / 2)"

text \<open>
  \<^verbatim>\<open>find_mid_eye\<close> calls the detector once. The second component of the result lists
  the images the detector was called on.
\<close>

definition find_mid_eye :: "'a detector \<Rightarrow> 'a image \<Rightarrow> (error + point) \<times> 'a image list" where
  "find_mid_eye detect img =
     (let fs = detect img in
      (if length fs = 0 then Inl (FaceDetectionError ''No face detected.'')
       else if length fs \<ge> 2 then Inl (FaceDetectionError ''Too many faces detected.'')
       else (case map_of fs ''face_1'' of
               None \<Rightarrow> Inl (KeyError ''face_1'')
             | Some f \<Rightarrow> Inr (mean2 (left_eye (landmarks f)) (right_eye (landmarks f)))),
       [img]))"

section \<open>The alignment cropper\<close>

text \<open>\<^verbatim>\<open>astype(int)\<close> on a float: truncation towards zero.\<close>

definition astype_int :: "real \<Rightarrow> int" where
  "astype_int x = (if 0 \<le> x then \<lfloor>x\<rfloor> else \<lceil>x\<rceil>)"

text \<open>\<^verbatim>\<open>np.array(imgs[0].shape[:2][::-1])\<close>: width first, then height.\<close>

definition imshape :: "'a image \<Rightarrow> int \<times> int" where
  "imshape img = (int (width img), int (height img))"

text \<open>\<^verbatim>\<open>mid_eyes.mean(axis=0)\<close> of a non-empty N x 2 array.\<close>

definition dist_mid_eye :: "point list \<Rightarrow> point" where
  "dist_mid_eye mid_eyes =
     (sum_list (map fst mid_eyes) / of_nat (length mid_eyes),
      sum_list (map snd mid_eyes) / of_nat (length mid_eyes))"

definition shifts :: "point list \<Rightarrow> point list" where
  "shifts mid_eyes =
     map (\<lambda>m. (fst (dist_mid_eye mid_eyes) - fst m, snd (dist_mid_eye mid_eyes) - snd m)) mid_eyes"

text \<open>\<^verbatim>\<open>shifts.max(axis=0)\<close> and \<^verbatim>\<open>shifts.min(axis=0)\<close>, called on non-empty arrays only.\<close>

definition bound_low :: "point list \<Rightarrow> point" where
  "bound_low mid_eyes =
     (Max (set (map fst (shifts mid_eyes))), Max (set (map snd (shifts mid_eyes))))"

definition shifts_min :: "point list \<Rightarrow> point" where
  "shifts_min mid_eyes =
     (Min (set (map fst (shifts mid_eyes))), Min (set (map snd (shifts mid_eyes))))"

definition bound_low_to_high :: "'a image \<Rightarrow> point list \<Rightarrow> int \<times> int" where
  "bound_low_to_high img0 mid_eyes =
     (astype_int (of_int (fst (imshape img0)) + fst (shifts_min mid_eyes) - fst (bound_low mid_eyes)),
      astype_int (of_int (snd (imshape img0)) + snd (shifts_min mid_eyes) - snd (bound_low mid_eyes)))"

text \<open>The four slice bounds computed in one iteration of the loop.\<close>

record crop_box =
  x_crop_low :: int
  y_crop_low :: int
  x_crop_high :: int
  y_crop_high :: int

definition crop_rect :: "'a image \<Rightarrow> point list \<Rightarrow> point \<Rightarrow> crop_box" where
  "crop_rect img0 mid_eyes shift =
     (let xl = astype_int (fst (bound_low mid_eyes) - fst shift);
          yl = astype_int (snd (bound_low mid_eyes) - snd shift);
          xh = xl + fst (bound_low_to_high img0 mid_eyes);
          yh = yl + snd (bound_low_to_high img0 mid_eyes)
      in \<lparr>x_crop_low = xl, y_crop_low = yl, x_crop_high = xh, y_crop_high = yh\<rparr>)"

text \<open>
  A slice bound \<open>i\<close> on an axis of length \<open>n\<close>, as Python resolves it: a negative bound
  counts from the end, and the result is clipped to \<open>0..n\<close>.
\<close>

definition slice_bound :: "int \<Rightarrow> nat \<Rightarrow> nat" where
  "slice_bound i n = (if i < 0 then nat (max (i + int n) 0) else min (nat i) n)"

text \<open>
  \<^verbatim>\<open>img[y_lo:y_hi, x_lo:x_hi]\<close>. An axis whose resolved stop is not beyond its resolved
  start has length 0 (subtraction on \<open>nat\<close>).
\<close>

definition crop :: "'a image \<Rightarrow> int \<Rightarrow> int \<Rightarrow> int \<Rightarrow> int \<Rightarrow> 'a image" where
  "crop img y_lo y_hi x_lo x_hi =
     (let y0 = slice_bound y_lo (height img); y1 = slice_bound y_hi (height img);
          x0 = slice_bound x_lo (width img); x1 = slice_bound x_hi (width img)
      in \<lparr>height = y1 - y0, width = x1 - x0, chans = chans img,
          pix = (\<lambda>r c. pix img (y0 + r) (x0 + c))\<rparr>)"

definition crop_to :: "'a image \<Rightarrow> crop_box \<Rightarrow> 'a image" where
  "crop_to img r = crop img (y_crop_low r) (y_crop_high r) (x_crop_low r) (x_crop_high r)"

text \<open>
  \<^verbatim>\<open>align_eyes\<close>. \<^verbatim>\<open>imgs[0]\<close> raises on an empty sequence, \<^verbatim>\<open>shifts.max\<close> on an empty
  array; the loop runs over \<^verbatim>\<open>zip(imgs, shifts)\<close>.
\<close>

definition align_eyes :: "'a image list \<Rightarrow> point list \<Rightarrow> error + 'a image list" where
  "align_eyes imgs mid_eyes =
     (case imgs of
        [] \<Rightarrow> Inl IndexError
      | img0 # _ \<Rightarrow>
          if mid_eyes = [] then Inl ZeroSizeReduction
          else Inr (map2 (\<lambda>img shift. crop_to img (crop_rect img0 mid_eyes shift))
                         imgs (shifts mid_eyes)))"

section \<open>The orchestrator\<close>

text \<open>The loop that compares every shape with the first one; the first difference raises.\<close>

fun check_shapes :: "nat list \<Rightarrow> 'a image list \<Rightarrow> error option" where
  "check_shapes s [] = None"
| "check_shapes s (img # imgs) =
     (if shape img \<noteq> s then Some (IncompatibleShapes (shape img) s) else check_shapes s imgs)"

text \<open>
  The list comprehension \<^verbatim>\<open>[find_mid_eye(img) for img in imgs]\<close>: in input order, stopping
  at the first exception.
\<close>

fun mid_eyes_of :: "'a detector \<Rightarrow> 'a image list \<Rightarrow> (error + point list) \<times> 'a image list" where
  "mid_eyes_of detect [] = (Inr [], [])"
| "mid_eyes_of detect (img # imgs) =
     (case find_mid_eye detect img of
        (Inl e, calls) \<Rightarrow> (Inl e, calls)
      | (Inr p, calls) \<Rightarrow>
          (case mid_eyes_of detect imgs of
             (Inl e, calls') \<Rightarrow> (Inl e, calls @ calls')
           | (Inr ps, calls') \<Rightarrow> (Inr (p # ps), calls @ calls')))"

text \<open>
  \<^verbatim>\<open>main\<close>. The second component of the result lists the images the detector was
  called on, in order.
\<close>

definition main :: "'a detector \<Rightarrow> 'a image list \<Rightarrow> (error + 'a image list) \<times> 'a image list" where
  "main detect imgs =
     (if length imgs \<le> 1 then (Inr imgs, [])
      else (case check_shapes (shape (hd imgs)) imgs of
              Some e \<Rightarrow> (Inl e, [])
            | None \<Rightarrow>
                (case mid_eyes_of detect imgs of
                   (Inl e, calls) \<Rightarrow> (Inl e, calls)
                 | (Inr mid_eyes, calls) \<Rightarrow> (align_eyes imgs mid_eyes, calls))))"

section \<open>Notions used in the statements\<close>

text \<open>
  Where the eye midpoint of image \<open>i\<close> lands inside its crop: the midpoint minus the
  crop origin \<open>(x_crop_low, y_crop_low)\<close> of that image.
\<close>

definition eye_offset :: "'a image \<Rightarrow> point list \<Rightarrow> nat \<Rightarrow> point" where
  "eye_offset img0 mid_eyes i =
     (fst (mid_eyes ! i) - of_int (x_crop_low (crop_rect img0 mid_eyes (shifts mid_eyes ! i))),
      snd (mid_eyes ! i) - of_int (y_crop_low (crop_rect img0 mid_eyes (shifts mid_eyes ! i))))"

text \<open>The midpoint \<^const>\<open>find_mid_eye\<close> returns for an image on which it succeeds.\<close>

definition mid_eye_of :: "'a detector \<Rightarrow> 'a image \<Rightarrow> point" where
  "mid_eye_of detect img = projr (fst (find_mid_eye detect img))"

subsection \<open>Concrete inputs\<close>

text \<open>
  Images filled with one value, without a channel axis or with one, and detectors that
  tell the images of a batch apart by their top-left pixel.
\<close>

definition flat :: "nat \<Rightarrow> nat \<Rightarrow> nat list \<Rightarrow> nat \<Rightarrow> nat image" where
  "flat h w cs v = \<lparr>height = h, width = w, chans = cs, pix = (\<lambda>r c. v)\<rparr>"

definition eyes_at :: "point \<Rightarrow> point \<Rightarrow> face" where
  "eyes_at l r = \<lparr>landmarks = \<lparr>left_eye = l, right_eye = r\<rparr>\<rparr>"

definition no_face_detector :: "nat detector" where
  "no_face_detector img = []"

definition two_face_detector :: "nat detector" where
  "two_face_detector img = [(''face_1'', eyes_at (1, 1) (3, 1)), (''face_2'', eyes_at (5, 1) (7, 1))]"

definition one_face_detector :: "nat detector" where
  "one_face_detector img = [(''face_1'', eyes_at (1, 1) (3, 1))]"

definition other_key_detector :: "nat detector" where
  "other_key_detector img = [(''face_2'', eyes_at (1, 1) (3, 1))]"

text \<open>Eye midpoints \<open>(40, 50)\<close> and \<open>(50.5, 50)\<close>.\<close>

definition half_pixel_detector :: "nat detector" where
  "half_pixel_detector img =
     (if pix img 0 0 = 0 then [(''face_1'', eyes_at (30, 50) (50, 50))]
      else [(''face_1'', eyes_at (40, 50) (61, 50))])"

text \<open>Eye midpoints \<open>(0, 5)\<close> and \<open>(12, 5)\<close>: further apart than a 10 pixel wide image.\<close>

definition spread_detector :: "nat detector" where
  "spread_detector img =
     (if pix img 0 0 = 0 then [(''face_1'', eyes_at (-2, 5) (2, 5))]
      else [(''face_1'', eyes_at (10, 5) (14, 5))])"

section \<open>Arithmetic of truncation\<close>

lemma astype_int_nonneg: "0 \<le> x \<Longrightarrow> 0 \<le> astype_int x"
  by (simp add: astype_int_def)

lemma astype_int_floor: "0 \<le> x \<Longrightarrow> astype_int x = \<lfloor>x\<rfloor>"
  by (simp add: astype_int_def)

lemma trunc_fit:
  fixes s mn mx :: real and W :: int
  assumes "mn \<le> s" "s \<le> mx"
  shows "astype_int (mx - s) + astype_int (of_int W + mn - mx) \<le> W"
proof -
  have d: "0 \<le> mx - s" using assms by simp
  have 1: "astype_int (mx - s) = \<lfloor>mx - s\<rfloor>" using d by (rule astype_int_floor)
  show ?thesis
  proof (cases "0 \<le> of_int W + mn - mx")
    case True
    then have "astype_int (of_int W + mn - mx) = \<lfloor>of_int W + mn - mx\<rfloor>" by (rule astype_int_floor)
    with 1 show ?thesis using assms by linarith
  next
    case False
    then have "astype_int (of_int W + mn - mx) = \<lceil>of_int W + mn - mx\<rceil>" by (simp add: astype_int_def)
    with 1 show ?thesis using assms by linarith
  qed
qed



section \<open>Shifts and crop rectangles\<close>

lemma length_shifts: "length (shifts mid_eyes) = length mid_eyes"
  by (simp add: shifts_def)


lemma shift_le_bound_low:
  assumes "s \<in> set (shifts mid_eyes)"
  shows "fst s \<le> fst (bound_low mid_eyes)" and "snd s \<le> snd (bound_low mid_eyes)"
  using assms by (simp_all add: bound_low_def)

lemma shifts_min_le_shift:
  assumes "s \<in> set (shifts mid_eyes)"
  shows "fst (shifts_min mid_eyes) \<le> fst s" and "snd (shifts_min mid_eyes) \<le> snd s"
  using assms by (simp_all add: shifts_min_def)

lemma crop_rect_sel:
  "x_crop_low (crop_rect img0 mid_eyes s) = astype_int (fst (bound_low mid_eyes) - fst s)"
  "y_crop_low (crop_rect img0 mid_eyes s) = astype_int (snd (bound_low mid_eyes) - snd s)"
  "x_crop_high (crop_rect img0 mid_eyes s) =
     x_crop_low (crop_rect img0 mid_eyes s) + fst (bound_low_to_high img0 mid_eyes)"
  "y_crop_high (crop_rect img0 mid_eyes s) =
     y_crop_low (crop_rect img0 mid_eyes s) + snd (bound_low_to_high img0 mid_eyes)"
  by (simp_all add: crop_rect_def Let_def)

lemma crop_rect_low_nonneg:
  assumes "s \<in> set (shifts mid_eyes)"
  shows "0 \<le> x_crop_low (crop_rect img0 mid_eyes s)" and "0 \<le> y_crop_low (crop_rect img0 mid_eyes s)"
  using shift_le_bound_low [OF assms] by (simp_all add: crop_rect_sel astype_int_nonneg)

lemma crop_rect_high_le:
  assumes "s \<in> set (shifts mid_eyes)"
  shows "x_crop_high (crop_rect img0 mid_eyes s) \<le> int (width img0)"
    and "y_crop_high (crop_rect img0 mid_eyes s) \<le> int (height img0)"
proof -
  show "x_crop_high (crop_rect img0 mid_eyes s) \<le> int (width img0)"
    using trunc_fit [OF shifts_min_le_shift(1) [OF assms] shift_le_bound_low(1) [OF assms], of "int (width img0)"]
    by (simp add: crop_rect_sel bound_low_to_high_def imshape_def)
  show "y_crop_high (crop_rect img0 mid_eyes s) \<le> int (height img0)"
    using trunc_fit [OF shifts_min_le_shift(2) [OF assms] shift_le_bound_low(2) [OF assms], of "int (height img0)"]
    by (simp add: crop_rect_sel bound_low_to_high_def imshape_def)
qed

text \<open>
  The crop size is not negative when every eye midpoint lies within the image. It can
  only be negative when two midpoints are at least a pixel further apart than the image
  is wide or high.
\<close>

lemma size_nonneg_inside:
  assumes "mid_eyes \<noteq> []"
    and "\<forall>m\<in>set mid_eyes. 0 \<le> fst m \<and> fst m \<le> real (width img0) \<and> 0 \<le> snd m \<and> snd m \<le> real (height img0)"
  shows "0 \<le> fst (bound_low_to_high img0 mid_eyes)" and "0 \<le> snd (bound_low_to_high img0 mid_eyes)"
proof -
  have ne: "set (shifts mid_eyes) \<noteq> {}" using assms(1) by (simp add: shifts_def)
  have span: "fst s - fst t \<le> real (width img0) \<and> snd s - snd t \<le> real (height img0)"
    if "s \<in> set (shifts mid_eyes)" "t \<in> set (shifts mid_eyes)" for s t
  proof -
    from that obtain a b where ab: "a \<in> set mid_eyes" "b \<in> set mid_eyes"
      and s: "s = (fst (dist_mid_eye mid_eyes) - fst a, snd (dist_mid_eye mid_eyes) - snd a)"
      and t: "t = (fst (dist_mid_eye mid_eyes) - fst b, snd (dist_mid_eye mid_eyes) - snd b)"
      by (auto simp: shifts_def)
    from assms(2) ab have "0 \<le> fst a" "fst b \<le> real (width img0)"
      "0 \<le> snd a" "snd b \<le> real (height img0)"
      by blast+
    then show ?thesis by (simp add: s t)
  qed
  have "fst (bound_low mid_eyes) \<in> fst ` set (shifts mid_eyes)"
    "fst (shifts_min mid_eyes) \<in> fst ` set (shifts mid_eyes)"
    "snd (bound_low mid_eyes) \<in> snd ` set (shifts mid_eyes)"
    "snd (shifts_min mid_eyes) \<in> snd ` set (shifts mid_eyes)"
    using ne Max_in [of "fst ` set (shifts mid_eyes)"] Min_in [of "fst ` set (shifts mid_eyes)"]
      Max_in [of "snd ` set (shifts mid_eyes)"] Min_in [of "snd ` set (shifts mid_eyes)"]
    by (simp_all add: bound_low_def shifts_min_def)
  then obtain s1 t1 s2 t2 where
    "s1 \<in> set (shifts mid_eyes)" "fst (bound_low mid_eyes) = fst s1"
    "t1 \<in> set (shifts mid_eyes)" "fst (shifts_min mid_eyes) = fst t1"
    "s2 \<in> set (shifts mid_eyes)" "snd (bound_low mid_eyes) = snd s2"
    "t2 \<in> set (shifts mid_eyes)" "snd (shifts_min mid_eyes) = snd t2"
    by (auto simp: image_iff)
  with span [of s1 t1] span [of s2 t2]
  have "0 \<le> real (width img0) + fst (shifts_min mid_eyes) - fst (bound_low mid_eyes)"
    "0 \<le> real (height img0) + snd (shifts_min mid_eyes) - snd (bound_low mid_eyes)"
    by simp_all
  then show "0 \<le> fst (bound_low_to_high img0 mid_eyes)" and "0 \<le> snd (bound_low_to_high img0 mid_eyes)"
    by (simp_all add: bound_low_to_high_def imshape_def astype_int_nonneg)
qed

section \<open>Slicing\<close>

lemma crop_sel:
  "height (crop img yl yh xl xh) = slice_bound yh (height img) - slice_bound yl (height img)"
  "width (crop img yl yh xl xh) = slice_bound xh (width img) - slice_bound xl (width img)"
  "chans (crop img yl yh xl xh) = chans img"
  by (simp_all add: crop_def Let_def)

lemma slice_bound_le: "slice_bound i n \<le> n"
  by (auto simp: slice_bound_def)

lemma crop_le: "height (crop img yl yh xl xh) \<le> height img" "width (crop img yl yh xl xh) \<le> width img"
  using slice_bound_le [of yh "height img"] slice_bound_le [of xh "width img"]
  by (simp_all add: crop_sel)

lemma slice_len_inside:
  "0 \<le> lo \<Longrightarrow> lo \<le> hi \<Longrightarrow> hi \<le> int n \<Longrightarrow> slice_bound hi n - slice_bound lo n = nat (hi - lo)"
  by (auto simp: slice_bound_def)

lemma slice_len_empty: "0 \<le> lo \<Longrightarrow> slice_bound lo n - slice_bound lo n = 0"
  by simp


lemma shape_eq: "shape a = shape b \<longleftrightarrow> height a = height b \<and> width a = width b \<and> chans a = chans b"
  by (auto simp: shape_def)

section \<open>Results of the cropper and the orchestrator\<close>

lemma align_eyes_Inr:
  assumes "imgs \<noteq> []" "mid_eyes \<noteq> []"
  shows "align_eyes imgs mid_eyes =
           Inr (map2 (\<lambda>img shift. crop_to img (crop_rect (hd imgs) mid_eyes shift)) imgs (shifts mid_eyes))"
  using assms by (cases imgs) (simp_all add: align_eyes_def)

lemma align_eyes_InrD:
  assumes "align_eyes imgs mid_eyes = Inr outs"
  shows "imgs \<noteq> []" "mid_eyes \<noteq> []"
  using assms by (auto simp: align_eyes_def split: list.splits if_splits)

lemma check_shapes_Some:
  "\<exists>img\<in>set imgs. shape img \<noteq> s \<Longrightarrow>
   \<exists>img\<in>set imgs. shape img \<noteq> s \<and> check_shapes s imgs = Some (IncompatibleShapes (shape img) s)"
  by (induction imgs) auto

lemma check_shapes_None: "\<forall>img\<in>set imgs. shape img = s \<Longrightarrow> check_shapes s imgs = None"
  by (induction imgs) auto

lemma align_eyes_nth:
  assumes "align_eyes imgs mid_eyes = Inr outs"
  shows "length outs = min (length imgs) (length mid_eyes)"
    and "i < length outs \<Longrightarrow>
           outs ! i = crop_to (imgs ! i) (crop_rect (hd imgs) mid_eyes (shifts mid_eyes ! i))"
    and "i < length outs \<Longrightarrow> shifts mid_eyes ! i \<in> set (shifts mid_eyes)"
proof -
  have outs: "outs = map2 (\<lambda>img shift. crop_to img (crop_rect (hd imgs) mid_eyes shift)) imgs (shifts mid_eyes)"
    using align_eyes_Inr [OF align_eyes_InrD [OF assms]] assms by simp
  show len: "length outs = min (length imgs) (length mid_eyes)"
    by (simp add: outs length_shifts)
  show "outs ! i = crop_to (imgs ! i) (crop_rect (hd imgs) mid_eyes (shifts mid_eyes ! i))"
    if "i < length outs"
    using that len by (simp add: outs length_shifts)
  show "shifts mid_eyes ! i \<in> set (shifts mid_eyes)" if "i < length outs"
    using that len by (simp add: length_shifts)
qed

lemma same_shape_nth:
  assumes "\<forall>img\<in>set imgs. shape img = shape (hd imgs)" and "i < length imgs"
  shows "height (imgs ! i) = height (hd imgs)" and "width (imgs ! i) = width (hd imgs)"
  using assms by (auto simp: shape_eq)





lemma crop_to_dims_inside:
  assumes "0 \<le> x_crop_low r" "x_crop_low r \<le> x_crop_high r" "x_crop_high r \<le> int (width img)"
    and "0 \<le> y_crop_low r" "y_crop_low r \<le> y_crop_high r" "y_crop_high r \<le> int (height img)"
  shows "width (crop_to img r) = nat (x_crop_high r - x_crop_low r)"
    and "height (crop_to img r) = nat (y_crop_high r - y_crop_low r)"
  using assms by (simp_all add: crop_to_def crop_sel slice_len_inside)

lemma crop_to_le:
  "width (crop_to img r) \<le> width img" "height (crop_to img r) \<le> height img"
  by (simp_all add: crop_to_def crop_le)

text \<open>The properties of one output of the cropper when the crop size is not negative.\<close>

lemma aligned_output:
  assumes outs: "align_eyes imgs mid_eyes = Inr outs"
    and shapes: "\<forall>img\<in>set imgs. shape img = shape (hd imgs)"
    and size: "0 \<le> fst (bound_low_to_high (hd imgs) mid_eyes)" "0 \<le> snd (bound_low_to_high (hd imgs) mid_eyes)"
    and i: "i < length outs"
  shows "outs ! i = crop_to (imgs ! i) (crop_rect (hd imgs) mid_eyes (shifts mid_eyes ! i))"
    and "width (outs ! i) = nat (fst (bound_low_to_high (hd imgs) mid_eyes))"
    and "height (outs ! i) = nat (snd (bound_low_to_high (hd imgs) mid_eyes))"
    and "0 \<le> x_crop_low (crop_rect (hd imgs) mid_eyes (shifts mid_eyes ! i))"
    and "0 \<le> y_crop_low (crop_rect (hd imgs) mid_eyes (shifts mid_eyes ! i))"
    and "x_crop_high (crop_rect (hd imgs) mid_eyes (shifts mid_eyes ! i)) \<le> int (width (imgs ! i))"
    and "y_crop_high (crop_rect (hd imgs) mid_eyes (shifts mid_eyes ! i)) \<le> int (height (imgs ! i))"
proof -
  let ?r = "crop_rect (hd imgs) mid_eyes (shifts mid_eyes ! i)"
  have mem: "shifts mid_eyes ! i \<in> set (shifts mid_eyes)"
    using align_eyes_nth(3) [OF outs i] .
  have ii: "i < length imgs"
    using align_eyes_nth(1) [OF outs] i by simp
  show eq: "outs ! i = crop_to (imgs ! i) ?r"
    using align_eyes_nth(2) [OF outs i] .
  show xl: "0 \<le> x_crop_low ?r" and yl: "0 \<le> y_crop_low ?r"
    using crop_rect_low_nonneg [OF mem] by blast+
  show xh: "x_crop_high ?r \<le> int (width (imgs ! i))"
    and yh: "y_crop_high ?r \<le> int (height (imgs ! i))"
    using crop_rect_high_le [OF mem, of "hd imgs"] same_shape_nth [OF shapes ii] by simp_all
  have "x_crop_low ?r \<le> x_crop_high ?r" "y_crop_low ?r \<le> y_crop_high ?r"
    using size by (simp_all add: crop_rect_sel)
  from crop_to_dims_inside [OF xl this(1) xh yl this(2) yh]
  show "width (outs ! i) = nat (fst (bound_low_to_high (hd imgs) mid_eyes))"
    and "height (outs ! i) = nat (snd (bound_low_to_high (hd imgs) mid_eyes))"
    by (simp_all add: eq crop_rect_sel)
qed






lemma find_mid_eye_face_1:
  assumes "detect img = [(''face_1'', f)]"
  shows "find_mid_eye detect img = (Inr (mid_eye_of detect img), [img])"
  using assms by (simp add: mid_eye_of_def find_mid_eye_def)

lemma mid_eyes_of_all:
  assumes "\<forall>img\<in>set imgs. \<exists>f. detect img = [(''face_1'', f)]"
  shows "mid_eyes_of detect imgs = (Inr (map (mid_eye_of detect) imgs), imgs)"
  using assms
proof (induction imgs)
  case Nil
  then show ?case by simp
next
  case (Cons img imgs)
  then obtain f where f: "detect img = [(''face_1'', f)]" by auto
  have "find_mid_eye detect img = (Inr (mid_eye_of detect img), [img])"
    using f by (rule find_mid_eye_face_1)
  with Cons show ?case by simp
qed

section \<open>Two concrete batches\<close>

text \<open>
  A batch of two \<open>100 \<times> 100\<close> images with eye midpoints \<open>(40, 50)\<close> and \<open>(50.5, 50)\<close>, and a
  batch of two \<open>10 \<times> 10\<close> images with eye midpoints \<open>(0, 5)\<close> and \<open>(12, 5)\<close>, evaluated step by
  step.
\<close>

lemma half_shifts: "shifts [(40, 50), (101 / 2, 50)] = [(21 / 4, 0), (- (21 / 4), 0)]"
  by (simp add: shifts_def dist_mid_eye_def)

lemma half_bound_low: "bound_low [(40, 50), (101 / 2, 50)] = (21 / 4, 0)"
  by (simp add: bound_low_def half_shifts)

lemma half_shifts_min: "shifts_min [(40, 50), (101 / 2, 50)] = (- (21 / 4), 0)"
  by (simp add: shifts_min_def half_shifts)

lemma half_size: "bound_low_to_high (flat 100 100 [3] 0) [(40, 50), (101 / 2, 50)] = (89, 100)"
  by (simp add: bound_low_to_high_def half_bound_low half_shifts_min imshape_def flat_def astype_int_def)




lemma half_mid_eyes:
  "map (mid_eye_of half_pixel_detector) [flat 100 100 [3] 0, flat 100 100 [3] 255] =
     [(40, 50), (101 / 2, 50)]"
  by (simp add: mid_eye_of_def find_mid_eye_def half_pixel_detector_def flat_def eyes_at_def mean2_def)

lemma half_shapes:
  "\<forall>img\<in>set [flat 100 100 [3] 0, flat 100 100 [3] 255].
     shape img = shape (hd [flat 100 100 [3] 0, flat 100 100 [3] 255])"
  by (simp add: flat_def shape_def)

lemma spread_shifts: "shifts [(0, 5), (12, 5)] = [(6, 0), (- 6, 0)]"
  by (simp add: shifts_def dist_mid_eye_def)

lemma spread_bound_low: "bound_low [(0, 5), (12, 5)] = (6, 0)"
  by (simp add: bound_low_def spread_shifts)

lemma spread_shifts_min: "shifts_min [(0, 5), (12, 5)] = (- 6, 0)"
  by (simp add: shifts_min_def spread_shifts)

lemma spread_size: "bound_low_to_high (flat 10 10 [] 0) [(0, 5), (12, 5)] = (- 2, 10)"
  by (simp add: bound_low_to_high_def spread_bound_low spread_shifts_min imshape_def flat_def astype_int_def)

lemma spread_rect0:
  "crop_rect (flat 10 10 [] 0) [(0, 5), (12, 5)] (6, 0) =
     \<lparr>x_crop_low = 0, y_crop_low = 0, x_crop_high = - 2, y_crop_high = 10\<rparr>"
  by (simp add: crop_rect_def spread_bound_low spread_size astype_int_def)

lemma spread_rect1:
  "crop_rect (flat 10 10 [] 0) [(0, 5), (12, 5)] (- 6, 0) =
     \<lparr>x_crop_low = 12, y_crop_low = 0, x_crop_high = 10, y_crop_high = 10\<rparr>"
  by (simp add: crop_rect_def spread_bound_low spread_size astype_int_def)

lemma spread_align:
  "align_eyes [flat 10 10 [] 0, flat 10 10 [] 255] [(0, 5), (12, 5)] =
     Inr [crop (flat 10 10 [] 0) 0 10 0 (- 2), crop (flat 10 10 [] 255) 0 10 12 10]"
  by (simp add: align_eyes_def spread_shifts spread_rect0 spread_rect1 crop_to_def)

lemma spread_mid_eyes_of:
  "mid_eyes_of spread_detector [flat 10 10 [] 0, flat 10 10 [] 255] =
     (Inr [(0, 5), (12, 5)], [flat 10 10 [] 0, flat 10 10 [] 255])"
  by (simp add: find_mid_eye_def spread_detector_def flat_def eyes_at_def mean2_def)

lemma spread_main:
  "main spread_detector [flat 10 10 [] 0, flat 10 10 [] 255] =
     (Inr [crop (flat 10 10 [] 0) 0 10 0 (- 2), crop (flat 10 10 [] 255) 0 10 12 10],
      [flat 10 10 [] 0, flat 10 10 [] 255])"
proof -
  have c: "check_shapes (shape (hd [flat 10 10 [] 0, flat 10 10 [] 255]))
      [flat 10 10 [] 0, flat 10 10 [] 255] = None"
    by (simp add: flat_def shape_def)
  show ?thesis
    unfolding main_def c spread_mid_eyes_of by (simp add: spread_align)
qed

section \<open>The landmark locator: claims\<close>

text \<open>
  Claim C7, as amended. \<^const>\<open>find_mid_eye\<close> raises \<^verbatim>\<open>FaceDetectionError("No face detected.")\<close>
  when the detector returns no face and \<^verbatim>\<open>FaceDetectionError("Too many faces detected.")\<close>
  when it returns two or more; when it returns exactly one face stored under the key
  \<^verbatim>\<open>'face_1'\<close> it returns the arithmetic mean of that face's left-eye and right-eye
  coordinates; and it raises \<^verbatim>\<open>FaceDetectionError\<close> in no other case, that is, exactly when
  the number of faces is not one.
\<close>

theorem find_mid_eye_cases:
  "(length (detect img) = 0 \<longrightarrow>
      fst (find_mid_eye detect img) = Inl (FaceDetectionError ''No face detected.'')) \<and>
   (2 \<le> length (detect img) \<longrightarrow>
      fst (find_mid_eye detect img) = Inl (FaceDetectionError ''Too many faces detected.'')) \<and>
   (\<forall>f. detect img = [(''face_1'', f)] \<longrightarrow>
      fst (find_mid_eye detect img) = Inr (mean2 (left_eye (landmarks f)) (right_eye (landmarks f)))) \<and>
   ((\<exists>msg. fst (find_mid_eye detect img) = Inl (FaceDetectionError msg)) \<longleftrightarrow>
      length (detect img) \<noteq> 1)"
proof -
  consider "length (detect img) = 0" | "2 \<le> length (detect img)" | "length (detect img) = 1"
    by linarith
  then show ?thesis
    by cases (auto simp: find_mid_eye_def Let_def split: option.splits)
qed

text \<open>The three cases, on a detector that finds no face, two faces and one face.\<close>

theorem find_mid_eye_cases_witness:
  "fst (find_mid_eye no_face_detector (flat 2 3 [] 0)) = Inl (FaceDetectionError ''No face detected.'') \<and>
   fst (find_mid_eye two_face_detector (flat 2 3 [] 0)) = Inl (FaceDetectionError ''Too many faces detected.'') \<and>
   fst (find_mid_eye one_face_detector (flat 2 3 [] 0)) = Inr (2, 1)"
  using find_mid_eye_cases [of no_face_detector "flat 2 3 [] 0"]
    find_mid_eye_cases [of two_face_detector "flat 2 3 [] 0"]
    find_mid_eye_cases [of one_face_detector "flat 2 3 [] 0"]
  by (simp add: no_face_detector_def two_face_detector_def one_face_detector_def eyes_at_def mean2_def)

text \<open>
  Claim C7 as stated fails: a detector result with exactly one face, stored under another
  key than \<^verbatim>\<open>'face_1'\<close>, makes \<^const>\<open>find_mid_eye\<close> raise \<^verbatim>\<open>KeyError\<close> instead of returning
  the mean \<open>(2, 1)\<close> of the eyes \<open>(1, 1)\<close> and \<open>(3, 1)\<close>.
\<close>

theorem find_mid_eye_one_face_counterexample:
  "length (other_key_detector (flat 2 3 [] 0)) = 1 \<and>
   fst (find_mid_eye other_key_detector (flat 2 3 [] 0)) = Inl (KeyError ''face_1'') \<and>
   fst (find_mid_eye other_key_detector (flat 2 3 [] 0)) \<noteq> Inr (mean2 (1, 1) (3, 1))"
  by (simp add: find_mid_eye_def other_key_detector_def)

text \<open>
  Claim C10. \<^const>\<open>find_mid_eye\<close> reads the single detected face through the fixed key
  \<^verbatim>\<open>'face_1'\<close>: on a detector result with exactly one face it returns a midpoint if and only
  if that face's identifier is \<^verbatim>\<open>'face_1'\<close>, the midpoint then being the mean of the two
  eyes; under any other identifier the lookup fails with \<^verbatim>\<open>KeyError\<close>.
\<close>

theorem find_mid_eye_key:
  assumes "detect img = [(k, f)]"
  shows "((\<exists>p. fst (find_mid_eye detect img) = Inr p) \<longleftrightarrow> k = ''face_1'') \<and>
         (k = ''face_1'' \<longrightarrow>
            fst (find_mid_eye detect img) = Inr (mean2 (left_eye (landmarks f)) (right_eye (landmarks f)))) \<and>
         (k \<noteq> ''face_1'' \<longrightarrow> fst (find_mid_eye detect img) = Inl (KeyError ''face_1''))"
  using assms by (auto simp: find_mid_eye_def)

theorem find_mid_eye_key_witness:
  "fst (find_mid_eye one_face_detector (flat 2 3 [] 0)) = Inr (2, 1) \<and>
   fst (find_mid_eye other_key_detector (flat 2 3 [] 0)) = Inl (KeyError ''face_1'')"
  using find_mid_eye_key [of one_face_detector "flat 2 3 [] 0" "''face_1''" "eyes_at (1, 1) (3, 1)"]
    find_mid_eye_key [of other_key_detector "flat 2 3 [] 0" "''face_2''" "eyes_at (1, 1) (3, 1)"]
  by (simp add: one_face_detector_def other_key_detector_def eyes_at_def mean2_def)

section \<open>The orchestrator: claims\<close>

text \<open>
  Claim C5. On a collection of 0 or 1 images \<^const>\<open>main\<close> returns the input unchanged, and
  the detector is not called.
\<close>

theorem main_small_batch:
  "length imgs \<le> 1 \<Longrightarrow> main detect imgs = (Inr imgs, [])"
  by (simp add: main_def)

theorem main_small_batch_witness:
  "main one_face_detector [flat 2 3 [] 7] = (Inr [flat 2 3 [] 7], []) \<and>
   main one_face_detector [] = (Inr [], [])"
  using main_small_batch [of "[flat 2 3 [] 7]" one_face_detector]
    main_small_batch [of "[]" one_face_detector]
  by simp

text \<open>
  Claim C6. On a batch of two or more images in which some image's shape differs from the
  first image's shape, \<^const>\<open>main\<close> fails with the shape-mismatch error that carries the
  differing shape and the first image's shape, and the detector has not been called.
\<close>

theorem main_shape_mismatch:
  assumes "2 \<le> length imgs" and "\<exists>img\<in>set imgs. shape img \<noteq> shape (hd imgs)"
  shows "\<exists>img\<in>set imgs. shape img \<noteq> shape (hd imgs) \<and>
           main detect imgs = (Inl (IncompatibleShapes (shape img) (shape (hd imgs))), [])"
proof -
  from check_shapes_Some [OF assms(2)] obtain img where
    "img \<in> set imgs" "shape img \<noteq> shape (hd imgs)"
    "check_shapes (shape (hd imgs)) imgs = Some (IncompatibleShapes (shape img) (shape (hd imgs)))"
    by blast
  moreover have "\<not> length imgs \<le> 1" using assms(1) by simp
  ultimately show ?thesis by (auto simp: main_def)
qed

theorem main_shape_mismatch_witness:
  "main one_face_detector [flat 2 3 [] 0, flat 2 4 [] 0] = (Inl (IncompatibleShapes [2, 4] [2, 3]), [])"
  using main_shape_mismatch [of "[flat 2 3 [] 0, flat 2 4 [] 0]" one_face_detector]
  by (simp add: flat_def shape_def)

text \<open>
  Claim C8, as amended. For a batch of two or more same-shaped images in which the
  detector returns exactly one face for every image, under the key \<^verbatim>\<open>'face_1'\<close>, and for
  which the computed crop size is not negative, \<^const>\<open>main\<close> returns as many images as it was
  given, the \<open>i\<close>-th output being the crop of the \<open>i\<close>-th input; all outputs have the same
  width and height, and no output is larger than its input in either axis. The detector
  has been called once per image, in input order.
\<close>

theorem main_output_dims:
  assumes "2 \<le> length imgs"
    and "\<forall>img\<in>set imgs. shape img = shape (hd imgs)"
    and "\<forall>img\<in>set imgs. \<exists>f. detect img = [(''face_1'', f)]"
    and "0 \<le> fst (bound_low_to_high (hd imgs) (map (mid_eye_of detect) imgs))"
    and "0 \<le> snd (bound_low_to_high (hd imgs) (map (mid_eye_of detect) imgs))"
  shows "\<exists>outs. main detect imgs = (Inr outs, imgs) \<and> length outs = length imgs \<and>
    (\<forall>i<length imgs.
       outs ! i = crop_to (imgs ! i)
         (crop_rect (hd imgs) (map (mid_eye_of detect) imgs) (shifts (map (mid_eye_of detect) imgs) ! i)) \<and>
       width (outs ! i) \<le> width (imgs ! i) \<and> height (outs ! i) \<le> height (imgs ! i) \<and>
       (\<forall>j<length imgs. width (outs ! i) = width (outs ! j) \<and> height (outs ! i) = height (outs ! j)))"
proof -
  let ?M = "map (mid_eye_of detect) imgs"
  have ne: "imgs \<noteq> []" "?M \<noteq> []" using assms(1) by auto
  obtain outs where outs: "align_eyes imgs ?M = Inr outs"
    using align_eyes_Inr [OF ne] by blast
  have len: "length outs = length imgs"
    using align_eyes_nth(1) [OF outs] by simp
  have "\<not> length imgs \<le> 1" using assms(1) by simp
  then have main: "main detect imgs = (Inr outs, imgs)"
    by (simp add: main_def check_shapes_None [OF assms(2)] mid_eyes_of_all [OF assms(3)] outs)
  have eqn: "outs ! i = crop_to (imgs ! i) (crop_rect (hd imgs) ?M (shifts ?M ! i))"
    if "i < length imgs" for i
    using aligned_output(1) [OF outs assms(2,4,5)] that len by simp
  have dims: "width (outs ! i) = nat (fst (bound_low_to_high (hd imgs) ?M)) \<and>
       height (outs ! i) = nat (snd (bound_low_to_high (hd imgs) ?M))"
    if "i < length imgs" for i
    using aligned_output(2,3) [OF outs assms(2,4,5)] that len by simp
  have le: "width (outs ! i) \<le> width (imgs ! i) \<and> height (outs ! i) \<le> height (imgs ! i)"
    if "i < length imgs" for i
    by (simp add: eqn [OF that] crop_to_le)
  have same: "width (outs ! i) = width (outs ! j) \<and> height (outs ! i) = height (outs ! j)"
    if "i < length imgs" "j < length imgs" for i j
    using dims [OF that(1)] dims [OF that(2)] by simp
  have "outs ! i = crop_to (imgs ! i) (crop_rect (hd imgs) ?M (shifts ?M ! i)) \<and>
       width (outs ! i) \<le> width (imgs ! i) \<and> height (outs ! i) \<le> height (imgs ! i) \<and>
       (\<forall>j<length imgs. width (outs ! i) = width (outs ! j) \<and> height (outs ! i) = height (outs ! j))"
    if "i < length imgs" for i
    using eqn [OF that] le [OF that] same [OF that] by blast
  with main len show ?thesis by blast
qed

theorem main_output_dims_witness:
  "\<exists>outs. main half_pixel_detector [flat 100 100 [3] 0, flat 100 100 [3] 255] =
       (Inr outs, [flat 100 100 [3] 0, flat 100 100 [3] 255]) \<and>
     length outs = 2 \<and> width (outs ! 0) = width (outs ! 1) \<and> height (outs ! 0) = height (outs ! 1) \<and>
     width (outs ! 1) \<le> width (flat 100 100 [3] 255)"
proof -
  let ?imgs = "[flat 100 100 [3] 0, flat 100 100 [3] 255]"
  have h1: "2 \<le> length ?imgs" by simp
  have h3: "\<forall>img\<in>set ?imgs. \<exists>f. half_pixel_detector img = [(''face_1'', f)]"
    by (simp add: half_pixel_detector_def flat_def)
  have h4: "0 \<le> fst (bound_low_to_high (hd ?imgs) (map (mid_eye_of half_pixel_detector) ?imgs))"
    unfolding half_mid_eyes by (simp add: half_size)
  have h5: "0 \<le> snd (bound_low_to_high (hd ?imgs) (map (mid_eye_of half_pixel_detector) ?imgs))"
    unfolding half_mid_eyes by (simp add: half_size)
  from main_output_dims [OF h1 half_shapes h3 h4 h5]
  obtain outs where outs: "main half_pixel_detector ?imgs = (Inr outs, ?imgs)" "length outs = length ?imgs"
    and rest: "\<forall>i<length ?imgs.
       width (outs ! i) \<le> width (?imgs ! i) \<and> height (outs ! i) \<le> height (?imgs ! i) \<and>
       (\<forall>j<length ?imgs. width (outs ! i) = width (outs ! j) \<and> height (outs ! i) = height (outs ! j))"
    by blast
  from rest [rule_format, of 1]
  have le: "width (outs ! 1) \<le> width (?imgs ! 1)"
    and same: "\<forall>j<length ?imgs. width (outs ! 1) = width (outs ! j) \<and> height (outs ! 1) = height (outs ! j)"
    by simp_all
  from same [rule_format, of 0]
  have "width (outs ! 1) = width (outs ! 0)" "height (outs ! 1) = height (outs ! 0)"
    by simp_all
  with outs le show ?thesis by simp
qed

text \<open>
  Claim C8 as stated fails: on two \<open>10 \<times> 10\<close> images whose single faces have their eye
  midpoints at \<open>(0, 5)\<close> and \<open>(12, 5)\<close> the crop size is \<open>(-2, 10)\<close>; \<^const>\<open>main\<close> returns the
  slices \<^verbatim>\<open>[0:10, 0:-2]\<close> and \<^verbatim>\<open>[0:10, 12:10]\<close>, of widths 8 and 0.
\<close>

theorem main_spread_counterexample:
  "length [flat 10 10 [] 0, flat 10 10 [] 255] = 2 \<and>
   shape (flat 10 10 [] 0) = shape (flat 10 10 [] 255) \<and>
   length (spread_detector (flat 10 10 [] 0)) = 1 \<and>
   length (spread_detector (flat 10 10 [] 255)) = 1 \<and>
   fst (main spread_detector [flat 10 10 [] 0, flat 10 10 [] 255]) =
     Inr [crop (flat 10 10 [] 0) 0 10 0 (- 2), crop (flat 10 10 [] 255) 0 10 12 10] \<and>
   width (crop (flat 10 10 [] 0) 0 10 0 (- 2)) = 8 \<and>
   width (crop (flat 10 10 [] 255) 0 10 12 10) = 0"
proof -
  have "shape (flat 10 10 [] 0) = shape (flat 10 10 [] 255)"
    by (simp add: flat_def shape_def)
  moreover have "length (spread_detector (flat 10 10 [] 0)) = 1"
    "length (spread_detector (flat 10 10 [] 255)) = 1"
    by (simp_all add: spread_detector_def flat_def)
  moreover have "width (crop (flat 10 10 [] 0) 0 10 0 (- 2)) = 8"
    "width (crop (flat 10 10 [] 255) 0 10 12 10) = 0"
    by (simp_all add: crop_sel slice_bound_def flat_def)
  ultimately show ?thesis by (simp add: spread_main)
qed

section \<open>The alignment cropper: claims\<close>

text \<open>
  Claim C3. On three images of shape \<open>(100, 100, 3)\<close> with eye midpoints \<open>(40, 50)\<close>,
  \<open>(50, 50)\<close> and \<open>(60, 50)\<close>, \<^const>\<open>align_eyes\<close> computes the reference midpoint \<open>(50, 50)\<close>, the
  shifts \<open>(10, 0)\<close>, \<open>(0, 0)\<close>, \<open>(-10, 0)\<close>, \<open>bound_low = (10, 0)\<close>, the shared crop size
  \<open>(80, 100)\<close> and the crop origins \<open>(0, 0)\<close>, \<open>(10, 0)\<close>, \<open>(20, 0)\<close>; every output is 80 wide
  and 100 high, and every eye midpoint lies at x-offset 40 of its crop.
\<close>

theorem align_eyes_scenario:
  "dist_mid_eye [(40, 50), (50, 50), (60, 50)] = (50, 50) \<and>
   shifts [(40, 50), (50, 50), (60, 50)] = [(10, 0), (0, 0), (-10, 0)] \<and>
   bound_low [(40, 50), (50, 50), (60, 50)] = (10, 0) \<and>
   shifts_min [(40, 50), (50, 50), (60, 50)] = (-10, 0) \<and>
   bound_low_to_high \<lparr>height = 100, width = 100, chans = [3], pix = p1\<rparr>
     [(40, 50), (50, 50), (60, 50)] = (80, 100) \<and>
   map (crop_rect \<lparr>height = 100, width = 100, chans = [3], pix = p1\<rparr> [(40, 50), (50, 50), (60, 50)])
     (shifts [(40, 50), (50, 50), (60, 50)]) =
     [\<lparr>x_crop_low = 0, y_crop_low = 0, x_crop_high = 80, y_crop_high = 100\<rparr>,
      \<lparr>x_crop_low = 10, y_crop_low = 0, x_crop_high = 90, y_crop_high = 100\<rparr>,
      \<lparr>x_crop_low = 20, y_crop_low = 0, x_crop_high = 100, y_crop_high = 100\<rparr>] \<and>
   align_eyes
     [\<lparr>height = 100, width = 100, chans = [3], pix = p1\<rparr>,
      \<lparr>height = 100, width = 100, chans = [3], pix = p2\<rparr>,
      \<lparr>height = 100, width = 100, chans = [3], pix = p3\<rparr>]
     [(40, 50), (50, 50), (60, 50)] =
     Inr [\<lparr>height = 100, width = 80, chans = [3], pix = (\<lambda>r c. p1 r c)\<rparr>,
          \<lparr>height = 100, width = 80, chans = [3], pix = (\<lambda>r c. p2 r (10 + c))\<rparr>,
          \<lparr>height = 100, width = 80, chans = [3], pix = (\<lambda>r c. p3 r (20 + c))\<rparr>] \<and>
   map (eye_offset \<lparr>height = 100, width = 100, chans = [3], pix = p1\<rparr> [(40, 50), (50, 50), (60, 50)])
     [0, 1, 2] = [(40, 50), (40, 50), (40, 50)]"
proof -
  let ?M = "[(40, 50), (50, 50), (60, 50)] :: point list"
  have s: "shifts ?M = [(10, 0), (0, 0), (-10, 0)]"
    by (simp add: shifts_def dist_mid_eye_def)
  have b: "bound_low ?M = (10, 0)"
    by (simp add: bound_low_def s)
  have m: "shifts_min ?M = (-10, 0)"
    by (simp add: shifts_min_def s)
  have z: "bound_low_to_high \<lparr>height = 100, width = 100, chans = [3], pix = p1\<rparr> ?M = (80, 100)"
    by (simp add: bound_low_to_high_def b m imshape_def astype_int_def)
  have d: "dist_mid_eye ?M = (50, 50)"
    by (simp add: dist_mid_eye_def)
  have r1: "crop_rect \<lparr>height = 100, width = 100, chans = [3], pix = p1\<rparr> ?M (10, 0) =
      \<lparr>x_crop_low = 0, y_crop_low = 0, x_crop_high = 80, y_crop_high = 100\<rparr>"
    by (simp add: crop_rect_def b z astype_int_def)
  have r2: "crop_rect \<lparr>height = 100, width = 100, chans = [3], pix = p1\<rparr> ?M (0, 0) =
      \<lparr>x_crop_low = 10, y_crop_low = 0, x_crop_high = 90, y_crop_high = 100\<rparr>"
    by (simp add: crop_rect_def b z astype_int_def)
  have r3: "crop_rect \<lparr>height = 100, width = 100, chans = [3], pix = p1\<rparr> ?M (-10, 0) =
      \<lparr>x_crop_low = 20, y_crop_low = 0, x_crop_high = 100, y_crop_high = 100\<rparr>"
    by (simp add: crop_rect_def b z astype_int_def)
  have r: "map (crop_rect \<lparr>height = 100, width = 100, chans = [3], pix = p1\<rparr> ?M) (shifts ?M) =
     [\<lparr>x_crop_low = 0, y_crop_low = 0, x_crop_high = 80, y_crop_high = 100\<rparr>,
      \<lparr>x_crop_low = 10, y_crop_low = 0, x_crop_high = 90, y_crop_high = 100\<rparr>,
      \<lparr>x_crop_low = 20, y_crop_low = 0, x_crop_high = 100, y_crop_high = 100\<rparr>]"
    by (simp add: s r1 r2 r3)
  have a: "align_eyes
     [\<lparr>height = 100, width = 100, chans = [3], pix = p1\<rparr>,
      \<lparr>height = 100, width = 100, chans = [3], pix = p2\<rparr>,
      \<lparr>height = 100, width = 100, chans = [3], pix = p3\<rparr>] ?M =
     Inr [\<lparr>height = 100, width = 80, chans = [3], pix = (\<lambda>r c. p1 r c)\<rparr>,
          \<lparr>height = 100, width = 80, chans = [3], pix = (\<lambda>r c. p2 r (10 + c))\<rparr>,
          \<lparr>height = 100, width = 80, chans = [3], pix = (\<lambda>r c. p3 r (20 + c))\<rparr>]"
    by (simp add: align_eyes_def s r1 r2 r3 crop_to_def crop_def slice_bound_def)
  have e: "map (eye_offset \<lparr>height = 100, width = 100, chans = [3], pix = p1\<rparr> ?M) [0, 1, 2] =
      [(40, 50), (40, 50), (40, 50)]"
    by (simp add: eye_offset_def s r1 r2 r3)
  show ?thesis by (intro conjI d s b m z r a e)
qed










end
